theory Spec2Isabelle
  imports Main "HOL-Library.Word"
begin

unbundle bit_operations_syntax

section \<open>Data model\<close>

text \<open>
  The move generator of \<^verbatim>\<open>src/src/movegen2.c\<close>. Squares are C \<^verbatim>\<open>int\<close>s
  (\<^verbatim>\<open>SQ_A1 = 0\<close> ... \<^verbatim>\<open>SQ_H8 = 63\<close>), bitboards are 64-bit words, and the generation
  category is the \<^verbatim>\<open>Type\<close> parameter of the generators.
\<close>

type_synonym Square = int
type_synonym Bitboard = "64 word"

datatype Color = WHITE | BLACK

datatype PieceType = NO_PIECE_TYPE | PAWN | KNIGHT | BISHOP | ROOK | QUEEN | KING

datatype Piece = NO_PIECE | Pc Color PieceType

datatype GenType = CAPTURES | QUIETS | QUIET_CHECKS | EVASIONS | NON_EVASIONS | LEGAL

datatype CastlingRight = WHITE_OO | WHITE_OOO | BLACK_OO | BLACK_OOO

datatype CastlingSide = KING_SIDE | QUEEN_SIDE

text \<open>
  Modelled from the spec: the move encoding of \<^verbatim>\<open>types.h\<close> is not part of the sources.
  A move is its origin, its destination and its kind (normal, promotion to a piece type,
  en passant, castling); two moves are equal iff these agree.
\<close>

datatype MoveKind = NORMAL | PROMOTION PieceType | ENPASSANT | CASTLING

datatype Move = MkMove (from_sq: Square) (to_sq: Square) (type_of_m: MoveKind)

definition make_move :: "Square \<Rightarrow> Square \<Rightarrow> Move" where
  "make_move from to = MkMove from to NORMAL"

definition make_promotion :: "Square \<Rightarrow> Square \<Rightarrow> PieceType \<Rightarrow> Move" where
  "make_promotion from to pt = MkMove from to (PROMOTION pt)"

definition make_enpassant :: "Square \<Rightarrow> Square \<Rightarrow> Move" where
  "make_enpassant from to = MkMove from to ENPASSANT"

definition make_castling :: "Square \<Rightarrow> Square \<Rightarrow> Move" where
  "make_castling from to = MkMove from to CASTLING"

text \<open>
  What stops a generator short of a move list: a failed \<^verbatim>\<open>assert\<close> (named by its line in
  \<^verbatim>\<open>movegen2.c\<close>), a read through the null \<^verbatim>\<open>CheckInfo\<close> pointer, or the castling
  walk leaving the board.
\<close>

datatype error = AssertionFailed nat | NullCheckInfo | OffBoard

record CheckInfo =
  ksq :: Square
  dcCandidates :: Bitboard
  checkSquares :: "PieceType \<Rightarrow> Bitboard"

section \<open>Squares and bitboards\<close>

text \<open>
  Modelled from the spec: the constants and helpers of \<^verbatim>\<open>types.h\<close> and \<^verbatim>\<open>bitboard.h\<close>
  (directions, rank and file masks, \<^verbatim>\<open>shift_bb\<close>, \<^verbatim>\<open>sq_bb\<close>, \<^verbatim>\<open>pop_lsb\<close>) are not part
  of the sources; they follow the usual little-endian rank-file mapping.
\<close>

definition DELTA_N :: Square where "DELTA_N = 8"
definition DELTA_E :: Square where "DELTA_E = 1"
definition DELTA_S :: Square where "DELTA_S = - 8"
definition DELTA_W :: Square where "DELTA_W = - 1"
definition DELTA_NE :: Square where "DELTA_NE = 9"
definition DELTA_SE :: Square where "DELTA_SE = - 7"
definition DELTA_SW :: Square where "DELTA_SW = - 9"
definition DELTA_NW :: Square where "DELTA_NW = 7"

definition SQ_C1 :: Square where "SQ_C1 = 2"
definition SQ_G1 :: Square where "SQ_G1 = 6"

definition RANK_6 :: int where "RANK_6 = 5"

definition FileABB :: Bitboard where "FileABB = 0x0101010101010101"
definition FileHBB :: Bitboard where "FileHBB = 0x8080808080808080"
definition Rank1BB :: Bitboard where "Rank1BB = 0xFF"
definition Rank2BB :: Bitboard where "Rank2BB = 0xFF00"
definition Rank3BB :: Bitboard where "Rank3BB = 0xFF0000"
definition Rank6BB :: Bitboard where "Rank6BB = 0xFF0000000000"
definition Rank7BB :: Bitboard where "Rank7BB = 0xFF000000000000"
definition Rank8BB :: Bitboard where "Rank8BB = 0xFF00000000000000"

definition is_ok :: "Square \<Rightarrow> bool" where
  "is_ok s = (0 \<le> s \<and> s < 64)"

definition rank_of :: "Square \<Rightarrow> int" where
  "rank_of s = s div 8"

definition file_of :: "Square \<Rightarrow> int" where
  "file_of s = s mod 8"

fun relative_rank :: "Color \<Rightarrow> int \<Rightarrow> int" where
  "relative_rank WHITE r = r"
| "relative_rank BLACK r = 7 - r"

fun relative_square :: "Color \<Rightarrow> Square \<Rightarrow> Square" where
  "relative_square WHITE s = s"
| "relative_square BLACK s = s XOR 56"

fun Them_of :: "Color \<Rightarrow> Color" where
  "Them_of WHITE = BLACK"
| "Them_of BLACK = WHITE"

text \<open>\<^verbatim>\<open>SquareBB[s]\<close>; the table has no entry off the board.\<close>

definition sq_bb :: "Square \<Rightarrow> Bitboard" where
  "sq_bb s = (if is_ok s then push_bit (nat s) 1 else 0)"

definition file_bb :: "Square \<Rightarrow> Bitboard" where
  "file_bb s = push_bit (nat (file_of s)) FileABB"

definition shift_bb :: "Square \<Rightarrow> Bitboard \<Rightarrow> Bitboard" where
  "shift_bb Delta b =
     (if Delta = DELTA_N then push_bit 8 b
      else if Delta = DELTA_S then drop_bit 8 b
      else if Delta = DELTA_NE then push_bit 9 (b AND NOT FileHBB)
      else if Delta = DELTA_SE then drop_bit 7 (b AND NOT FileHBB)
      else if Delta = DELTA_NW then push_bit 7 (b AND NOT FileABB)
      else if Delta = DELTA_SW then drop_bit 9 (b AND NOT FileABB)
      else 0)"

definition more_than_one :: "Bitboard \<Rightarrow> bool" where
  "more_than_one b = (b AND (b - 1) \<noteq> 0)"

text \<open>
  \<^verbatim>\<open>lsb(b)\<close> is the lowest square of a non-empty bitboard, and \<^verbatim>\<open>pop_lsb(&b)\<close> also
  removes it. \<open>lsb_from\<close> scans upwards from a bit position; the loop
  \<^verbatim>\<open>while (b) { s = pop_lsb(&b); ... }\<close> visits \<open>pop_squares b\<close> in order.
\<close>

fun lsb_from :: "Bitboard \<Rightarrow> nat \<Rightarrow> nat \<Rightarrow> nat" where
  "lsb_from b i 0 = i"
| "lsb_from b i (Suc fuel) = (if bit b i then i else lsb_from b (Suc i) fuel)"

definition lsb :: "Bitboard \<Rightarrow> Square" where
  "lsb b = int (lsb_from b 0 64)"

definition pop_lsb :: "Bitboard \<Rightarrow> Square \<times> Bitboard" where
  "pop_lsb b = (lsb b, unset_bit (nat (lsb b)) b)"

function pop_squares :: "Bitboard \<Rightarrow> Square list" where
  "pop_squares b = (if b = 0 then [] else (case pop_lsb b of (s, b') \<Rightarrow> s # pop_squares b'))"
  by pat_completeness auto


text \<open>
  Modelled from the spec: the step-attack table \<^verbatim>\<open>StepAttacksBB\<close> is filled at start-up by
  code outside the sources. A pawn, knight or king on \<open>s\<close> attacks \<open>s + step\<close> (steps
  mirrored for Black) when that square is on the board and less than three files and
  ranks away.
\<close>

definition distance :: "Square \<Rightarrow> Square \<Rightarrow> int" where
  "distance x y = max \<bar>file_of x - file_of y\<bar> \<bar>rank_of x - rank_of y\<bar>"

fun steps :: "PieceType \<Rightarrow> int list" where
  "steps PAWN = [7, 9]"
| "steps KNIGHT = [17, 15, 10, 6, - 6, - 10, - 15, - 17]"
| "steps KING = [9, 7, - 7, - 9, 8, 1, - 1, - 8]"
| "steps _ = []"

definition StepAttacksBB :: "Color \<Rightarrow> PieceType \<Rightarrow> Square \<Rightarrow> Bitboard" where
  "StepAttacksBB c pt s =
     fold (\<lambda>d b. let to = s + (if c = WHITE then d else - d)
                  in if is_ok to \<and> distance s to < 3 then b OR sq_bb to else b)
       (steps pt) 0"

definition attacks_from_pawn :: "Square \<Rightarrow> Color \<Rightarrow> Bitboard" where
  "attacks_from_pawn s c = StepAttacksBB c PAWN s"

definition attacks_from_king :: "Square \<Rightarrow> Bitboard" where
  "attacks_from_king s = StepAttacksBB WHITE KING s"

fun make_castling_right :: "Color \<Rightarrow> CastlingSide \<Rightarrow> CastlingRight" where
  "make_castling_right WHITE KING_SIDE = WHITE_OO"
| "make_castling_right WHITE QUEEN_SIDE = WHITE_OOO"
| "make_castling_right BLACK KING_SIDE = BLACK_OO"
| "make_castling_right BLACK QUEEN_SIDE = BLACK_OOO"

fun type_of_p :: "Piece \<Rightarrow> PieceType" where
  "type_of_p NO_PIECE = NO_PIECE_TYPE"
| "type_of_p (Pc c pt) = pt"

section \<open>The position collaborator\<close>

text \<open>
  \<^verbatim>\<open>position.h\<close> is not part of the sources. The generator reads the position only through
  the queries below (the macros and functions \<^verbatim>\<open>movegen2.c\<close> calls), so the position is the
  record of their answers; \<open>piece_list\<close> is the list up to its \<^verbatim>\<open>SQ_NONE\<close> terminator and
  \<open>checkinfo_init\<close> the \<^verbatim>\<open>CheckInfo\<close> that \<^verbatim>\<open>checkinfo_init(&ci, pos)\<close> fills in.
\<close>

record Pos =
  pos_stm :: Color
  pieces :: Bitboard
  pieces_c :: "Color \<Rightarrow> Bitboard"
  pieces_p :: "PieceType \<Rightarrow> Bitboard"
  piece_on :: "Square \<Rightarrow> Piece"
  piece_list :: "Color \<Rightarrow> PieceType \<Rightarrow> Square list"
  square_of :: "Color \<Rightarrow> PieceType \<Rightarrow> Square"
  pos_checkers :: Bitboard
  ep_square :: Square
  is_chess960 :: bool
  can_castle_c :: "Color \<Rightarrow> bool"
  can_castle_cr :: "CastlingRight \<Rightarrow> bool"
  castling_impeded :: "CastlingRight \<Rightarrow> bool"
  castling_rook_square :: "CastlingRight \<Rightarrow> Square"
  attacks_from :: "PieceType \<Rightarrow> Square \<Rightarrow> Bitboard"
  attackers_to :: "Square \<Rightarrow> Bitboard"
  attacks_bb_rook :: "Square \<Rightarrow> Bitboard \<Rightarrow> Bitboard"
  PseudoAttacks :: "PieceType \<Rightarrow> Square \<Rightarrow> Bitboard"
  LineBB :: "Square \<Rightarrow> Square \<Rightarrow> Bitboard"
  between_bb :: "Square \<Rightarrow> Square \<Rightarrow> Bitboard"
  gives_check :: "Move \<Rightarrow> CheckInfo \<Rightarrow> bool"
  is_legal :: "Move \<Rightarrow> Bitboard \<Rightarrow> bool"
  pinned_pieces :: "Color \<Rightarrow> Bitboard"
  checkinfo_init :: CheckInfo

definition pieces_cp :: "Pos \<Rightarrow> Color \<Rightarrow> PieceType \<Rightarrow> Bitboard" where
  "pieces_cp pos c p = pieces_p pos p AND pieces_c pos c"

definition pieces_pp :: "Pos \<Rightarrow> PieceType \<Rightarrow> PieceType \<Rightarrow> Bitboard" where
  "pieces_pp pos p1 p2 = pieces_p pos p1 OR pieces_p pos p2"

definition pieces_cpp :: "Pos \<Rightarrow> Color \<Rightarrow> PieceType \<Rightarrow> PieceType \<Rightarrow> Bitboard" where
  "pieces_cpp pos c p1 p2 = pieces_pp pos p1 p2 AND pieces_c pos c"

definition bindE :: "error + 'a \<Rightarrow> ('a \<Rightarrow> error + 'b) \<Rightarrow> error + 'b" where
  "bindE r f = (case r of Inl e \<Rightarrow> Inl e | Inr x \<Rightarrow> f x)"

section \<open>Castling\<close>

text \<open>
  The walk \<^verbatim>\<open>for (s = kto; s != kfrom; s += K) if (attackers_to(s) & enemies) return list;\<close>
  of \<^verbatim>\<open>generate_castling\<close>: \<open>Inr True\<close> when it meets an attacked square, \<open>Inr False\<close> when
  it reaches \<open>kfrom\<close>. A walk that steps off the board would read the attack tables out
  of range; it ends in \<open>OffBoard\<close> (as would a step of zero, which \<open>K\<close> never is).
\<close>

function king_path_attacked :: "Pos \<Rightarrow> Bitboard \<Rightarrow> Square \<Rightarrow> Square \<Rightarrow> Square \<Rightarrow> error + bool" where
  "king_path_attacked pos enemies K kfrom s =
     (if s = kfrom then Inr False
      else if \<not> is_ok s \<or> K = 0 then Inl OffBoard
      else if attackers_to pos s AND enemies \<noteq> 0 then Inr True
      else king_path_attacked pos enemies K kfrom (s + K))"
  by pat_completeness auto
termination
  by (relation "measure (\<lambda>(pos, enemies, K, kfrom, s). if K < 0 then nat (s + 1) else nat (64 - s))")
     (auto simp: is_ok_def)

declare king_path_attacked.simps [simp del]

definition generate_castling ::
  "Pos \<Rightarrow> Move list \<Rightarrow> Color \<Rightarrow> CheckInfo option \<Rightarrow> CastlingRight \<Rightarrow> bool \<Rightarrow> bool \<Rightarrow> error + Move list" where
  "generate_castling pos list us ci Cr Checks Chess960 =
     (let KingSide = (Cr = WHITE_OO \<or> Cr = BLACK_OO) in
      if castling_impeded pos Cr \<or> \<not> can_castle_cr pos Cr then Inr list
      else
        let kfrom = square_of pos us KING;
            rfrom = castling_rook_square pos Cr;
            kto = relative_square us (if KingSide then SQ_G1 else SQ_C1);
            enemies = pieces_c pos (Them_of us)
        in
        if pos_checkers pos \<noteq> 0 then Inl (AssertionFailed 51)
        else
          let K = (if Chess960 then (if kto > kfrom then DELTA_W else DELTA_E)
                   else (if KingSide then DELTA_W else DELTA_E))
          in
          bindE (king_path_attacked pos enemies K kfrom kto) (\<lambda>attacked.
            if attacked then Inr list
            else if Chess960 \<and> (attacks_bb_rook pos kto (pieces pos XOR sq_bb rfrom)
                                   AND pieces_cpp pos (Them_of us) ROOK QUEEN) \<noteq> 0
            then Inr list
            else
              let m = make_castling kfrom rfrom in
              if Checks then
                (case ci of
                   None \<Rightarrow> Inl NullCheckInfo
                 | Some c \<Rightarrow> if \<not> gives_check pos m c then Inr list else Inr (list @ [m]))
              else Inr (list @ [m])))"

section \<open>Promotions\<close>

definition make_promotions ::
  "Move list \<Rightarrow> Square \<Rightarrow> CheckInfo option \<Rightarrow> GenType \<Rightarrow> Square \<Rightarrow> error + Move list" where
  "make_promotions list to ci Type Delta =
     (let list1 = (if Type = CAPTURES \<or> Type = EVASIONS \<or> Type = NON_EVASIONS
                   then list @ [make_promotion (to - Delta) to QUEEN] else list);
          list2 = (if Type = QUIETS \<or> Type = EVASIONS \<or> Type = NON_EVASIONS
                   then list1 @ [make_promotion (to - Delta) to ROOK,
                                 make_promotion (to - Delta) to BISHOP,
                                 make_promotion (to - Delta) to KNIGHT]
                   else list1)
      in
      if Type = QUIET_CHECKS then
        (case ci of
           None \<Rightarrow> Inl NullCheckInfo
         | Some c \<Rightarrow>
             if StepAttacksBB WHITE KNIGHT to AND sq_bb (ksq c) \<noteq> 0
             then Inr (list2 @ [make_promotion (to - Delta) to KNIGHT])
             else Inr list2)
      else Inr list2)"

text \<open>\<^verbatim>\<open>while (b) list = make_promotions(list, pop_lsb(&b), ci, Type, Delta);\<close>\<close>

fun promotions_loop ::
  "Move list \<Rightarrow> Square list \<Rightarrow> CheckInfo option \<Rightarrow> GenType \<Rightarrow> Square \<Rightarrow> error + Move list" where
  "promotions_loop list [] ci Type Delta = Inr list"
| "promotions_loop list (to # rest) ci Type Delta =
     bindE (make_promotions list to ci Type Delta) (\<lambda>list'. promotions_loop list' rest ci Type Delta)"

section \<open>Pawn moves\<close>

text \<open>
  The parameters \<^verbatim>\<open>generate_pawn_moves\<close> computes at compile time from \<^verbatim>\<open>Us\<close>, named from
  the point of view of White.
\<close>

definition TRank8BB :: "Color \<Rightarrow> Bitboard" where
  "TRank8BB Us = (if Us = WHITE then Rank8BB else Rank1BB)"

definition TRank7BB :: "Color \<Rightarrow> Bitboard" where
  "TRank7BB Us = (if Us = WHITE then Rank7BB else Rank2BB)"

definition TRank3BB :: "Color \<Rightarrow> Bitboard" where
  "TRank3BB Us = (if Us = WHITE then Rank3BB else Rank6BB)"

definition Up :: "Color \<Rightarrow> Square" where
  "Up Us = (if Us = WHITE then DELTA_N else DELTA_S)"

definition Right :: "Color \<Rightarrow> Square" where
  "Right Us = (if Us = WHITE then DELTA_NE else DELTA_SW)"

definition Left :: "Color \<Rightarrow> Square" where
  "Left Us = (if Us = WHITE then DELTA_NW else DELTA_SE)"

definition Them :: "Color \<Rightarrow> Color" where
  "Them Us = (if Us = WHITE then BLACK else WHITE)"

definition pawnsOn7 :: "Pos \<Rightarrow> Color \<Rightarrow> Bitboard" where
  "pawnsOn7 pos Us = pieces_cp pos Us PAWN AND TRank7BB Us"

definition pawnsNotOn7 :: "Pos \<Rightarrow> Color \<Rightarrow> Bitboard" where
  "pawnsNotOn7 pos Us = pieces_cp pos Us PAWN AND NOT (TRank7BB Us)"

definition enemies_of :: "Pos \<Rightarrow> Bitboard \<Rightarrow> Color \<Rightarrow> GenType \<Rightarrow> Bitboard" where
  "enemies_of pos target Us Type =
     (if Type = EVASIONS then pieces_c pos (Them Us) AND target
      else if Type = CAPTURES then target else pieces_c pos (Them Us))"

text \<open>
  Lines 126-152: the destinations \<open>(b1, b2)\<close> of the single and the double pushes.
  Only \<^verbatim>\<open>QUIET_CHECKS\<close> reads through \<^verbatim>\<open>ci\<close>.
\<close>

definition pawn_push_targets ::
  "Pos \<Rightarrow> Bitboard \<Rightarrow> CheckInfo option \<Rightarrow> Color \<Rightarrow> GenType \<Rightarrow> error + (Bitboard \<times> Bitboard)" where
  "pawn_push_targets pos target ci Us Type =
     (let emptySquares = (if Type = QUIETS \<or> Type = QUIET_CHECKS then target else NOT (pieces pos));
          b1 = shift_bb (Up Us) (pawnsNotOn7 pos Us) AND emptySquares;
          b2 = shift_bb (Up Us) (b1 AND TRank3BB Us) AND emptySquares;
          b1 = (if Type = EVASIONS then b1 AND target else b1);
          b2 = (if Type = EVASIONS then b2 AND target else b2)
      in
      if Type = QUIET_CHECKS then
        (case ci of
           None \<Rightarrow> Inl NullCheckInfo
         | Some c \<Rightarrow>
             let b1 = b1 AND attacks_from_pawn (ksq c) (Them Us);
                 b2 = b2 AND attacks_from_pawn (ksq c) (Them Us)
             in
             if pawnsNotOn7 pos Us AND dcCandidates c \<noteq> 0 then
               let dc1 = shift_bb (Up Us) (pawnsNotOn7 pos Us AND dcCandidates c)
                           AND emptySquares AND NOT (file_bb (ksq c));
                   dc2 = shift_bb (Up Us) (dc1 AND TRank3BB Us) AND emptySquares
               in Inr (b1 OR dc1, b2 OR dc2)
             else Inr (b1, b2))
      else Inr (b1, b2))"

text \<open>Lines 125-163: single and double pawn pushes, no promotions.\<close>

definition pawn_pushes ::
  "Pos \<Rightarrow> Move list \<Rightarrow> Bitboard \<Rightarrow> CheckInfo option \<Rightarrow> Color \<Rightarrow> GenType \<Rightarrow> error + Move list" where
  "pawn_pushes pos list target ci Us Type =
     (if Type \<noteq> CAPTURES then
        bindE (pawn_push_targets pos target ci Us Type) (\<lambda>(b1, b2).
          Inr (list @ map (\<lambda>to. make_move (to - Up Us) to) (pop_squares b1)
                    @ map (\<lambda>to. make_move (to - Up Us - Up Us) to) (pop_squares b2)))
      else Inr list)"

text \<open>
  Lines 165-185: promotions and underpromotions. \<^verbatim>\<open>emptySquares\<close> is the variable the push
  block left behind, except that \<^verbatim>\<open>CAPTURES\<close> (which skipped that block) sets it here.
\<close>

definition pawn_promotions ::
  "Pos \<Rightarrow> Move list \<Rightarrow> Bitboard \<Rightarrow> CheckInfo option \<Rightarrow> Color \<Rightarrow> GenType \<Rightarrow> error + Move list" where
  "pawn_promotions pos list target ci Us Type =
     (if pawnsOn7 pos Us \<noteq> 0 \<and> (Type \<noteq> EVASIONS \<or> target AND TRank8BB Us \<noteq> 0) then
        let emptySquares = (if Type = CAPTURES then NOT (pieces pos)
                            else if Type = QUIETS \<or> Type = QUIET_CHECKS then target
                            else NOT (pieces pos));
            emptySquares = (if Type = EVASIONS then emptySquares AND target else emptySquares);
            b1 = shift_bb (Right Us) (pawnsOn7 pos Us) AND enemies_of pos target Us Type;
            b2 = shift_bb (Left Us) (pawnsOn7 pos Us) AND enemies_of pos target Us Type;
            b3 = shift_bb (Up Us) (pawnsOn7 pos Us) AND emptySquares
        in
        bindE (promotions_loop list (pop_squares b1) ci Type (Right Us)) (\<lambda>list.
        bindE (promotions_loop list (pop_squares b2) ci Type (Left Us)) (\<lambda>list.
          promotions_loop list (pop_squares b3) ci Type (Up Us)))
      else Inr list)"

text \<open>Lines 187-218: standard and en-passant captures, with the two assertions of that branch.\<close>

definition pawn_captures ::
  "Pos \<Rightarrow> Move list \<Rightarrow> Bitboard \<Rightarrow> Color \<Rightarrow> GenType \<Rightarrow> error + Move list" where
  "pawn_captures pos list target Us Type =
     (if Type = CAPTURES \<or> Type = EVASIONS \<or> Type = NON_EVASIONS then
        let b1 = shift_bb (Right Us) (pawnsNotOn7 pos Us) AND enemies_of pos target Us Type;
            b2 = shift_bb (Left Us) (pawnsNotOn7 pos Us) AND enemies_of pos target Us Type;
            list = list @ map (\<lambda>to. make_move (to - Right Us) to) (pop_squares b1)
                        @ map (\<lambda>to. make_move (to - Left Us) to) (pop_squares b2)
        in
        if ep_square pos \<noteq> 0 then
          if rank_of (ep_square pos) \<noteq> relative_rank Us RANK_6 then Inl (AssertionFailed 203)
          else if Type = EVASIONS \<and> target AND sq_bb (ep_square pos - Up Us) = 0 then Inr list
          else
            let b1 = pawnsNotOn7 pos Us AND attacks_from_pawn (ep_square pos) (Them Us) in
            if b1 = 0 then Inl (AssertionFailed 213)
            else Inr (list @ map (\<lambda>s. make_enpassant s (ep_square pos)) (pop_squares b1))
        else Inr list
      else Inr list)"

definition generate_pawn_moves ::
  "Pos \<Rightarrow> Move list \<Rightarrow> Bitboard \<Rightarrow> CheckInfo option \<Rightarrow> Color \<Rightarrow> GenType \<Rightarrow> error + Move list" where
  "generate_pawn_moves pos list target ci Us Type =
     bindE (pawn_pushes pos list target ci Us Type) (\<lambda>list.
     bindE (pawn_promotions pos list target ci Us Type) (\<lambda>list.
       pawn_captures pos list target Us Type))"

section \<open>Knight, bishop, rook and queen moves\<close>

text \<open>The loop of \<^verbatim>\<open>generate_moves\<close> over the piece list of \<^verbatim>\<open>(us, Pt)\<close>.\<close>

fun piece_loop ::
  "Pos \<Rightarrow> Bitboard \<Rightarrow> CheckInfo option \<Rightarrow> PieceType \<Rightarrow> bool \<Rightarrow> Square list \<Rightarrow> Move list \<Rightarrow> error + Move list" where
  "piece_loop pos target ci Pt Checks [] list = Inr list"
| "piece_loop pos target ci Pt Checks (from # pl) list =
     (if Checks then
        (case ci of
           None \<Rightarrow> Inl NullCheckInfo
         | Some c \<Rightarrow>
             if (Pt = BISHOP \<or> Pt = ROOK \<or> Pt = QUEEN)
                \<and> PseudoAttacks pos Pt from AND target AND checkSquares c Pt = 0
             then piece_loop pos target ci Pt Checks pl list
             else if dcCandidates c AND sq_bb from \<noteq> 0
             then piece_loop pos target ci Pt Checks pl list
             else piece_loop pos target ci Pt Checks pl
                    (list @ map (make_move from)
                       (pop_squares (attacks_from pos Pt from AND target AND checkSquares c Pt))))
      else piece_loop pos target ci Pt Checks pl
             (list @ map (make_move from) (pop_squares (attacks_from pos Pt from AND target))))"

definition generate_moves ::
  "Pos \<Rightarrow> Move list \<Rightarrow> Color \<Rightarrow> Bitboard \<Rightarrow> CheckInfo option \<Rightarrow> PieceType \<Rightarrow> bool \<Rightarrow> error + Move list" where
  "generate_moves pos list us target ci Pt Checks =
     (if \<not> (Pt \<noteq> KING \<and> Pt \<noteq> PAWN) then Inl (AssertionFailed 229)
      else piece_loop pos target ci Pt Checks (piece_list pos us Pt) list)"

section \<open>The dispatcher and the entry points\<close>

definition generate_all ::
  "Pos \<Rightarrow> Move list \<Rightarrow> Bitboard \<Rightarrow> CheckInfo option \<Rightarrow> Color \<Rightarrow> GenType \<Rightarrow> error + Move list" where
  "generate_all pos list target ci Us Type =
     (let Checks = (Type = QUIET_CHECKS) in
      bindE (generate_pawn_moves pos list target ci Us Type) (\<lambda>list.
      bindE (generate_moves pos list Us target ci KNIGHT Checks) (\<lambda>list.
      bindE (generate_moves pos list Us target ci BISHOP Checks) (\<lambda>list.
      bindE (generate_moves pos list Us target ci ROOK Checks) (\<lambda>list.
      bindE (generate_moves pos list Us target ci QUEEN Checks) (\<lambda>list.
        let list = (if Type \<noteq> QUIET_CHECKS \<and> Type \<noteq> EVASIONS then
                      list @ map (make_move (square_of pos Us KING))
                               (pop_squares (attacks_from_king (square_of pos Us KING) AND target))
                    else list)
        in
        if Type \<noteq> CAPTURES \<and> Type \<noteq> EVASIONS \<and> can_castle_c pos Us then
          if is_chess960 pos then
            bindE (generate_castling pos list Us ci (make_castling_right Us KING_SIDE) Checks True) (\<lambda>list.
              generate_castling pos list Us ci (make_castling_right Us QUEEN_SIDE) Checks True)
          else
            bindE (generate_castling pos list Us ci (make_castling_right Us KING_SIDE) Checks False) (\<lambda>list.
              generate_castling pos list Us ci (make_castling_right Us QUEEN_SIDE) Checks False)
        else Inr list))))))"

definition generate :: "Pos \<Rightarrow> Move list \<Rightarrow> GenType \<Rightarrow> error + Move list" where
  "generate pos list Type =
     (if \<not> (Type = CAPTURES \<or> Type = QUIETS \<or> Type = NON_EVASIONS) then Inl (AssertionFailed 300)
      else if pos_checkers pos \<noteq> 0 then Inl (AssertionFailed 301)
      else
        let us = pos_stm pos;
            target = (if Type = CAPTURES then pieces_c pos (Them_of us)
                      else if Type = QUIETS then NOT (pieces pos)
                      else if Type = NON_EVASIONS then NOT (pieces_c pos us) else 0)
        in
        if us = WHITE then generate_all pos list target None WHITE Type
        else generate_all pos list target None BLACK Type)"

definition generate_captures :: "Pos \<Rightarrow> Move list \<Rightarrow> error + Move list" where
  "generate_captures pos list = generate pos list CAPTURES"

definition generate_quiets :: "Pos \<Rightarrow> Move list \<Rightarrow> error + Move list" where
  "generate_quiets pos list = generate pos list QUIETS"

definition generate_non_evasions :: "Pos \<Rightarrow> Move list \<Rightarrow> error + Move list" where
  "generate_non_evasions pos list = generate pos list NON_EVASIONS"

text \<open>
  The discovered-check sweep of \<^verbatim>\<open>generate_quiet_checks\<close> (lines 342-356), one candidate
  square per step.
\<close>

fun dc_sweep :: "Pos \<Rightarrow> CheckInfo \<Rightarrow> Square list \<Rightarrow> Move list \<Rightarrow> Move list" where
  "dc_sweep pos ci [] list = list"
| "dc_sweep pos ci (from # dc) list =
     (let pt = type_of_p (piece_on pos from) in
      if pt = PAWN then dc_sweep pos ci dc list
      else
        let b = attacks_from pos pt from AND NOT (pieces pos);
            b = (if pt = KING then b AND NOT (PseudoAttacks pos QUEEN (ksq ci)) else b)
        in dc_sweep pos ci dc (list @ map (make_move from) (pop_squares b)))"

definition generate_quiet_checks :: "Pos \<Rightarrow> Move list \<Rightarrow> error + Move list" where
  "generate_quiet_checks pos list =
     (if pos_checkers pos \<noteq> 0 then Inl (AssertionFailed 335)
      else
        let us = pos_stm pos;
            ci = checkinfo_init pos;
            list = dc_sweep pos ci (pop_squares (dcCandidates ci)) list
        in
        if us = WHITE then generate_all pos list (NOT (pieces pos)) (Some ci) WHITE QUIET_CHECKS
        else generate_all pos list (NOT (pieces pos)) (Some ci) BLACK QUIET_CHECKS)"

definition generate_evasions :: "Pos \<Rightarrow> Move list \<Rightarrow> error + Move list" where
  "generate_evasions pos list =
     (if pos_checkers pos = 0 then Inl (AssertionFailed 367)
      else
        let us = pos_stm pos;
            ksq = square_of pos us KING;
            sliders = pos_checkers pos AND NOT (pieces_pp pos KNIGHT PAWN);
            sliderAttacks = fold (\<lambda>checksq acc. acc OR (LineBB pos checksq ksq XOR sq_bb checksq))
                              (pop_squares sliders) 0;
            b = attacks_from_king ksq AND NOT (pieces_c pos us) AND NOT sliderAttacks;
            list = list @ map (make_move ksq) (pop_squares b)
        in
        if more_than_one (pos_checkers pos) then Inr list
        else
          let checksq = lsb (pos_checkers pos);
              target = between_bb pos checksq ksq OR sq_bb checksq
          in
          if us = WHITE then generate_all pos list target None WHITE EVASIONS
          else generate_all pos list target None BLACK EVASIONS)"

text \<open>
  The filter loop of \<^verbatim>\<open>generate_legal\<close> (lines 408-414) over the moves between \<^verbatim>\<open>cur\<close> and
  \<^verbatim>\<open>list\<close>: \<open>kept\<close> are the moves \<^verbatim>\<open>cur\<close> has passed, \<open>rest\<close> the moves from \<^verbatim>\<open>cur\<close> to
  \<^verbatim>\<open>list\<close>. A rejected move is overwritten with the last one. The second component
  records, in order, the moves \<^verbatim>\<open>is_legal\<close> was called on (\<^verbatim>\<open>&&\<close> evaluates its right
  operand only when the left one holds).
\<close>

function legal_loop ::
  "Pos \<Rightarrow> Bitboard \<Rightarrow> Square \<Rightarrow> Move list \<Rightarrow> Move list \<Rightarrow> Move list \<Rightarrow> Move list \<times> Move list" where
  "legal_loop pos pinned kingsq kept [] tested = (kept, tested)"
| "legal_loop pos pinned kingsq kept (m # rest) tested =
     (if pinned \<noteq> 0 \<or> from_sq m = kingsq \<or> type_of_m m = ENPASSANT then
        if \<not> is_legal pos m pinned then
          legal_loop pos pinned kingsq kept
            (if rest = [] then [] else last rest # butlast rest) (tested @ [m])
        else legal_loop pos pinned kingsq (kept @ [m]) rest (tested @ [m])
      else legal_loop pos pinned kingsq (kept @ [m]) rest tested)"
  by pat_completeness auto
termination
  by (relation "measure (\<lambda>(pos, pinned, kingsq, kept, rest, tested). length rest)") auto

definition generate_legal_traced :: "Pos \<Rightarrow> Move list \<Rightarrow> error + (Move list \<times> Move list)" where
  "generate_legal_traced pos list =
     (let pinned = pinned_pieces pos (pos_stm pos);
          ksq = square_of pos (pos_stm pos) KING
      in
      bindE (if pos_checkers pos \<noteq> 0 then generate_evasions pos list
             else generate_non_evasions pos list) (\<lambda>moves.
        case legal_loop pos pinned ksq [] (drop (length list) moves) [] of
          (kept, tested) \<Rightarrow> Inr (take (length list) moves @ kept, tested)))"

definition generate_legal :: "Pos \<Rightarrow> Move list \<Rightarrow> error + Move list" where
  "generate_legal pos list = bindE (generate_legal_traced pos list) (\<lambda>(moves, tested). Inr moves)"

lemma lsb_from_least:
  "\<exists>k. i \<le> k \<and> k < i + fuel \<and> bit b k \<Longrightarrow>
     bit b (lsb_from b i fuel) \<and> i \<le> lsb_from b i fuel \<and> lsb_from b i fuel < i + fuel
       \<and> (\<forall>j. i \<le> j \<and> j < lsb_from b i fuel \<longrightarrow> \<not> bit b j)"
proof (induction fuel arbitrary: i)
  case 0
  then show ?case by auto
next
  case (Suc fuel)
  show ?case
  proof (cases "bit b i")
    case True
    then show ?thesis by auto
  next
    case False
    from Suc.prems obtain k where k: "i \<le> k" "k < i + Suc fuel" "bit b k" by blast
    with False have "k \<noteq> i" by auto
    with k have "\<exists>k. Suc i \<le> k \<and> k < Suc i + fuel \<and> bit b k"
      by (intro exI[of _ k]) auto
    from Suc.IH[OF this] have ih: "bit b (lsb_from b (Suc i) fuel)" "Suc i \<le> lsb_from b (Suc i) fuel"
      "lsb_from b (Suc i) fuel < Suc i + fuel"
      "\<And>j. Suc i \<le> j \<Longrightarrow> j < lsb_from b (Suc i) fuel \<Longrightarrow> \<not> bit b j"
      by auto
    have "\<not> bit b j" if "i \<le> j" "j < lsb_from b (Suc i) fuel" for j
    proof (cases "j = i")
      case True
      with False show ?thesis by simp
    next
      case False
      with that show ?thesis by (intro ih(4)) auto
    qed
    with ih False show ?thesis by auto
  qed
qed

lemma word_nonzero_bit: "(b :: Bitboard) \<noteq> 0 \<Longrightarrow> \<exists>k. k < 64 \<and> bit b k"
proof -
  assume "b \<noteq> 0"
  then obtain k where "bit b k" by (auto simp: bit_eq_iff)
  moreover from this have "k < 64" using bit_imp_le_length[of b k] by simp
  ultimately show ?thesis by blast
qed

lemma lsb_props:
  assumes "(b :: Bitboard) \<noteq> 0"
  shows "0 \<le> lsb b" "lsb b < 64" "bit b (nat (lsb b))" "\<And>j. j < nat (lsb b) \<Longrightarrow> \<not> bit b j"
proof -
  from word_nonzero_bit[OF assms] have "\<exists>k. 0 \<le> k \<and> k < 0 + 64 \<and> bit b k" by auto
  from lsb_from_least[OF this] show "0 \<le> lsb b" "lsb b < 64" "bit b (nat (lsb b))"
    "\<And>j. j < nat (lsb b) \<Longrightarrow> \<not> bit b j"
    by (auto simp: lsb_def)
qed

lemma finite_bits: "finite {n. bit (b :: Bitboard) n}"
proof (rule finite_subset)
  show "{n. bit b n} \<subseteq> {..<64}" using bit_imp_le_length[of b] by auto
qed simp

lemma pop_lsb_card:
  assumes nz: "b \<noteq> 0" and x: "(s, b') = pop_lsb b"
  shows "card {n. bit b' n} < card {n. bit b n}"
proof -
  from x have b': "b' = unset_bit (nat (lsb b)) b" by (simp add: pop_lsb_def)
  have "{n. bit b' n} = {n. bit b n} - {nat (lsb b)}"
    by (auto simp: b' bit_unset_bit_iff)
  moreover have "nat (lsb b) \<in> {n. bit b n}" using lsb_props(3)[OF nz] by simp
  ultimately show ?thesis
    using finite_bits[of b] card_Diff1_less[of "{n. bit b n}" "nat (lsb b)"] by simp
qed

termination pop_squares
  by (relation "measure (\<lambda>b. card {n. bit b n})") (auto simp: pop_lsb_card)

declare pop_squares.simps [simp del]

lemma filter_upt_first:
  assumes "m < n" "P m" "\<And>j. j < m \<Longrightarrow> \<not> P j"
  shows "filter P [0..<n] = m # filter P [Suc m..<n]"
proof -
  have "[0..<n] = [0..<m] @ m # [Suc m..<n]"
    using assms(1) by (metis le0 less_imp_le_nat upt_add_eq_append le_add_diff_inverse upt_conv_Cons)
  moreover have "filter P [0..<m] = []" using assms(3) by (auto simp: filter_empty_conv)
  ultimately show ?thesis using assms(2) by simp
qed

text \<open>The squares a \<^verbatim>\<open>pop_lsb\<close> loop visits: the set bits, lowest first.\<close>

lemma pop_squares_eq: "pop_squares b = map int (filter (bit b) [0..<64])"
proof (induction b rule: pop_squares.induct)
  case (1 b)
  show ?case
  proof (cases "b = 0")
    case True
    then show ?thesis by (simp add: pop_squares.simps)
  next
    case False
    define m where "m = nat (lsb b)"
    define b' where "b' = unset_bit m b"
    have m: "m < 64" "bit b m" "\<And>j. j < m \<Longrightarrow> \<not> bit b j" "int m = lsb b"
      using lsb_props[OF False] by (auto simp: m_def)
    have "(lsb b, b') = pop_lsb b" by (simp add: pop_lsb_def b'_def m_def)
    from 1[OF False this]
    have ih: "pop_squares b' = map int (filter (bit b') [0..<64])" .
    have "filter (bit b') [0..<64] = filter (bit b') [0..<m] @ filter (bit b') (m # [Suc m..<64])"
      using m(1) by (metis filter_append le0 less_imp_le_nat upt_add_eq_append le_add_diff_inverse upt_conv_Cons)
    moreover have "filter (bit b') [0..<m] = []"
      using m(3) by (auto simp: filter_empty_conv b'_def bit_unset_bit_iff)
    moreover have "filter (bit b') [Suc m..<64] = filter (bit b) [Suc m..<64]"
      by (rule filter_cong) (auto simp: b'_def bit_unset_bit_iff)
    ultimately have "filter (bit b') [0..<64] = filter (bit b) [Suc m..<64]"
      by (simp add: b'_def bit_unset_bit_iff)
    moreover have "filter (bit b) [0..<64] = m # filter (bit b) [Suc m..<64]"
      by (rule filter_upt_first) (use m in auto)
    moreover have "pop_squares b = lsb b # pop_squares b'"
      using False by (subst pop_squares.simps) (simp add: pop_lsb_def b'_def m_def)
    ultimately show ?thesis using ih m(4) by simp
  qed
qed

lemma set_pop_squares: "s \<in> set (pop_squares b) \<longleftrightarrow> 0 \<le> s \<and> bit b (nat s)"
proof
  assume "s \<in> set (pop_squares b)"
  then show "0 \<le> s \<and> bit b (nat s)" by (auto simp: pop_squares_eq)
next
  assume a: "0 \<le> s \<and> bit b (nat s)"
  then have "nat s < 64" using bit_imp_le_length[of b "nat s"] by simp
  with a have "nat s \<in> set (filter (bit b) [0..<64])" by simp
  then have "int (nat s) \<in> set (pop_squares b)" unfolding pop_squares_eq set_map by (rule imageI)
  with a show "s \<in> set (pop_squares b)" by simp
qed

lemma pop_squares_is_ok: "s \<in> set (pop_squares b) \<Longrightarrow> is_ok s"
  using bit_imp_le_length[of b "nat s"] by (auto simp: set_pop_squares is_ok_def)

lemma distinct_pop_squares: "distinct (pop_squares b)"
  by (simp add: pop_squares_eq distinct_map inj_on_def)

lemma sq_bb_test: "is_ok s \<Longrightarrow> (b AND sq_bb s \<noteq> 0) = bit b (nat s)"
  by (simp add: sq_bb_def and_exp_eq_0_iff_not_bit)


section \<open>Promotions by category\<close>

text \<open>
  C3 (as the code has it). For a pawn reaching the last rank on \<open>to\<close> from \<open>to - Delta\<close>,
  \<^verbatim>\<open>make_promotions\<close> appends: for CAPTURES the queen promotion only; for QUIETS the rook,
  bishop and knight promotions only (no queen promotion, so not all four pieces); for
  EVASIONS and NON_EVASIONS all four, queen first; for QUIET_CHECKS the knight promotion
  alone, and only when a knight on \<open>to\<close> attacks the opponent king's square \<open>ksq\<close>;
  for any other category nothing.
\<close>

theorem make_promotions_by_category:
  "make_promotions list to ci Type Delta =
     (case Type of
        CAPTURES \<Rightarrow> Inr (list @ [make_promotion (to - Delta) to QUEEN])
      | QUIETS \<Rightarrow> Inr (list @ [make_promotion (to - Delta) to ROOK,
                                make_promotion (to - Delta) to BISHOP,
                                make_promotion (to - Delta) to KNIGHT])
      | QUIET_CHECKS \<Rightarrow>
          (case ci of
             None \<Rightarrow> Inl NullCheckInfo
           | Some c \<Rightarrow>
               Inr (list @ (if StepAttacksBB WHITE KNIGHT to AND sq_bb (ksq c) \<noteq> 0
                            then [make_promotion (to - Delta) to KNIGHT] else [])))
      | EVASIONS \<Rightarrow> Inr (list @ [make_promotion (to - Delta) to QUEEN,
                                  make_promotion (to - Delta) to ROOK,
                                  make_promotion (to - Delta) to BISHOP,
                                  make_promotion (to - Delta) to KNIGHT])
      | NON_EVASIONS \<Rightarrow> Inr (list @ [make_promotion (to - Delta) to QUEEN,
                                      make_promotion (to - Delta) to ROOK,
                                      make_promotion (to - Delta) to BISHOP,
                                      make_promotion (to - Delta) to KNIGHT])
      | LEGAL \<Rightarrow> Inr list)"
  by (cases Type) (simp_all add: make_promotions_def split: option.split)

text \<open>
  C3 as stated fails for QUIETS: a pawn pushed from a7 (48) to a8 (56) gets the three
  underpromotions and no queen promotion.
\<close>

theorem make_promotions_quiets_no_queen:
  "make_promotions [] 56 None QUIETS DELTA_N =
     Inr [make_promotion 48 56 ROOK, make_promotion 48 56 BISHOP, make_promotion 48 56 KNIGHT]
   \<and> make_promotion 48 56 QUEEN \<notin>
       set [make_promotion 48 56 ROOK, make_promotion 48 56 BISHOP, make_promotion 48 56 KNIGHT]"
  by (simp add: make_promotions_def DELTA_N_def make_promotion_def)

end
